theory Spec2Isabelle
  imports Complex_Main "HOL-Library.AList"
begin

section \<open>Data model of the FlockCtrl driver\<close>

text \<open>
  The embedding follows \<^verbatim>\<open>flockwave/server/ext/flockctrl/driver.py\<close>. Python
  objects that are mutated in place become records that are passed in and returned;
  an exception becomes a value of \<open>error\<close> returned next to the state the
  raise leaves behind. Python floats are the type parameter \<open>'f\<close>: the driver
  passes them through, and where it computes with them the float operations are
  parameters.
\<close>

type_synonym medium = string
type_synonym address = string
type_synonym source = "medium \<times> address"

text \<open>A GPS coordinate; altitudes may be absent (\<^verbatim>\<open>None\<close>).\<close>

record 'f position =
  lat :: 'f
  lon :: 'f
  amsl :: "'f option"
  agl :: "'f option"

text \<open>Values stored in the dictionaries handed to the device tree mutator.\<close>

datatype 'f dval = DNone | DInt int | DFloat 'f

type_synonym 'f pydict = "(string \<times> 'f dval) list"

text \<open>
  The channels created by \<^verbatim>\<open>_initialize_device_tree_node\<close>, and the mutator
  seen from outside: the sequence of \<^verbatim>\<open>mutator.update(channel, dict)\<close> calls.
\<close>

datatype channel = DoseRate | RawCount nat | Rate nat | CameraFeature nat

type_synonym 'f mutator = "(channel \<times> 'f pydict) list"

datatype error =
    AddressConflictError string medium address
  | ValueError string
  | CommandAlreadyInProgress
  | TypeError
  | IndexError
  | OverflowError
  | ZeroDivisionError

text \<open>
  \<^verbatim>\<open>FlockCtrlUAV\<close>: the identifier, the per-medium addresses, the position of
  the last status (\<^verbatim>\<open>self._status.position\<close>) and the retained Geiger sample.
\<close>

record 'f uav =
  uav_id :: string
  addresses :: "medium \<rightharpoonup> address"
  status_position :: "'f position option"
  last_geiger_counter_packet :: "(int \<times> int list) option"

definition create_uav :: "string \<Rightarrow> 'f uav" where
  "create_uav formatted_id =
     \<lparr>uav_id = formatted_id, addresses = Map.empty, status_position = None,
      last_geiger_counter_packet = None\<rparr>"

section \<open>Addresses of one UAV\<close>

text \<open>
  \<^verbatim>\<open>FlockCtrlUAV.check_or_record_address\<close>. The raise happens before any
  mutation, so the UAV returned next to the error is the one passed in.
\<close>

definition check_or_record_address :: "'f uav \<Rightarrow> medium \<Rightarrow> address \<Rightarrow> 'f uav \<times> error option" where
  "check_or_record_address u medium address =
     (case addresses u medium of
        None \<Rightarrow> (u\<lparr>addresses := (addresses u)(medium \<mapsto> address)\<rparr>, None)
      | Some current_address \<Rightarrow>
          if current_address \<noteq> address
          then (u, Some (AddressConflictError (uav_id u) medium address))
          else (u, None))"

text \<open>
  \<^verbatim>\<open>FlockCtrlUAV.preferred_address\<close>: the loop over the supported media, in
  priority order, and the \<^verbatim>\<open>ValueError\<close> after it.
\<close>

definition supported_media :: "medium list" where
  "supported_media = [''wireless'']"

fun first_known_address :: "(medium \<rightharpoonup> address) \<Rightarrow> medium list \<Rightarrow> error + source" where
  "first_known_address addrs [] =
     Inl (ValueError ''UAV has no address yet in any of the supported communication media'')"
| "first_known_address addrs (medium # rest) =
     (case addrs medium of
        Some address \<Rightarrow> Inr (medium, address)
      | None \<Rightarrow> first_known_address addrs rest)"

definition preferred_address :: "'f uav \<Rightarrow> error + source" where
  "preferred_address u = first_known_address (addresses u) supported_media"

text \<open>
  A sequence of recording attempts on one UAV: each attempt either succeeds or raises
  to its caller, and the next attempt sees the UAV the previous one left behind.
\<close>

fun record_attempts :: "'f uav \<Rightarrow> (medium \<times> address) list \<Rightarrow> 'f uav" where
  "record_attempts u [] = u"
| "record_attempts u ((medium, address) # rest) =
     record_attempts (fst (check_or_record_address u medium address)) rest"

section \<open>Pending commands\<close>

text \<open>
  Modelled from the spec: \<^verbatim>\<open>FutureMap\<close> and the futures it holds
  (\<^verbatim>\<open>flockwave.server.concurrency\<close>), which are not part of the sources at hand.
  A future is waiting, fulfilled with a text, or cancelled. The map takes a vehicle id to
  the future instance of its pending command; instances are told apart by a number, and
  a waiter keeps its instance after the map has let go of it.
\<close>

datatype future_state = Waiting | Fulfilled string | Cancelled

record future_map =
  slots :: "string \<rightharpoonup> nat"
  futures :: "nat \<Rightarrow> future_state"
  next_future :: nat

text \<open>
  Modelled from the spec: the constructor of \<^verbatim>\<open>FutureMap\<close>, a map with no
  pending command.
\<close>

definition future_map_empty :: future_map where
  "future_map_empty = \<lparr>slots = Map.empty, futures = (\<lambda>_. Waiting), next_future = 0\<rparr>"

text \<open>
  Modelled from the spec: cancelling a future and fulfilling it
  (\<^verbatim>\<open>Future.cancel\<close>, \<^verbatim>\<open>Future.set_result\<close>). The spec does not say what a
  second resolution of the same future does; here the first outcome stays.
\<close>

definition future_cancel :: "future_map \<Rightarrow> nat \<Rightarrow> future_map" where
  "future_cancel fm f =
     (if futures fm f = Waiting then fm\<lparr>futures := (futures fm)(f := Cancelled)\<rparr> else fm)"

definition future_set_result :: "future_map \<Rightarrow> nat \<Rightarrow> string \<Rightarrow> future_map" where
  "future_set_result fm f text =
     (if futures fm f = Waiting then fm\<lparr>futures := (futures fm)(f := Fulfilled text)\<rparr>
      else fm)"

text \<open>
  Modelled from the spec: entering \<^verbatim>\<open>FutureMap.new(id, strict)\<close>. With no
  pending command for the id a new instance is created. With one, strict mode fails with
  \<open>CommandAlreadyInProgress\<close> and lenient mode cancels the old instance and puts
  the new one in its place.
\<close>

definition future_map_create :: "future_map \<Rightarrow> string \<Rightarrow> future_map \<times> (error + nat)" where
  "future_map_create fm vid =
     (let f = next_future fm
      in (fm\<lparr>slots := (slots fm)(vid \<mapsto> f),
              futures := (futures fm)(f := Waiting),
              next_future := Suc f\<rparr>, Inr f))"

definition future_map_new :: "future_map \<Rightarrow> string \<Rightarrow> bool \<Rightarrow> future_map \<times> (error + nat)" where
  "future_map_new fm vid strict =
     (case slots fm vid of
        None \<Rightarrow> future_map_create fm vid
      | Some old \<Rightarrow>
          if strict then (fm, Inl CommandAlreadyInProgress)
          else future_map_create (future_cancel fm old) vid)"

text \<open>
  Modelled from the spec: leaving the scope of \<^verbatim>\<open>FutureMap.new\<close>. The slot of
  the id is removed if and only if it still holds the instance this scope created.
\<close>

definition future_map_exit :: "future_map \<Rightarrow> string \<Rightarrow> nat \<Rightarrow> future_map" where
  "future_map_exit fm vid f =
     (if slots fm vid = Some f then fm\<lparr>slots := (slots fm)(vid := None)\<rparr> else fm)"

section \<open>The driver\<close>

text \<open>
  What the driver writes to its log, kept as events rather than formatted text.
\<close>

datatype log_event =
    NoPacketHandler string
  | NoCorrespondingUAV source
  | DroppedStaleResponse string

text \<open>
  The packet classes the driver knows, and any other class by its name; the handlers
  that \<^verbatim>\<open>_configure_packet_handlers\<close> puts into the dispatch table.
\<close>

datatype packet_class =
    FlockCtrlStatusPacket
  | FlockCtrlPrearmStatusPacket
  | FlockCtrlCompressedCommandResponsePacket
  | FlockCtrlCommandResponsePacket
  | FlockCtrlAlgorithmDataPacket
  | FlockCtrlMissionInfoPacket
  | OtherPacketClass string

datatype handler =
    Handle_inbound_status_packet
  | Nop
  | Handle_inbound_command_response_packet
  | Handle_inbound_algorithm_data_packet

type_synonym 'a packet = "packet_class \<times> 'a"

fun class_name :: "packet_class \<Rightarrow> string" where
  "class_name FlockCtrlStatusPacket = ''FlockCtrlStatusPacket''"
| "class_name FlockCtrlPrearmStatusPacket = ''FlockCtrlPrearmStatusPacket''"
| "class_name FlockCtrlCompressedCommandResponsePacket =
     ''FlockCtrlCompressedCommandResponsePacket''"
| "class_name FlockCtrlCommandResponsePacket = ''FlockCtrlCommandResponsePacket''"
| "class_name FlockCtrlAlgorithmDataPacket = ''FlockCtrlAlgorithmDataPacket''"
| "class_name FlockCtrlMissionInfoPacket = ''FlockCtrlMissionInfoPacket''"
| "class_name (OtherPacketClass name) = name"

fun configure_packet_handlers :: "packet_class \<Rightarrow> handler option" where
  "configure_packet_handlers FlockCtrlStatusPacket = Some Handle_inbound_status_packet"
| "configure_packet_handlers FlockCtrlPrearmStatusPacket = Some Nop"
| "configure_packet_handlers FlockCtrlCompressedCommandResponsePacket =
     Some Handle_inbound_command_response_packet"
| "configure_packet_handlers FlockCtrlCommandResponsePacket =
     Some Handle_inbound_command_response_packet"
| "configure_packet_handlers FlockCtrlAlgorithmDataPacket =
     Some Handle_inbound_algorithm_data_packet"
| "configure_packet_handlers FlockCtrlMissionInfoPacket = Some Nop"
| "configure_packet_handlers (OtherPacketClass name) = None"

text \<open>
  \<^verbatim>\<open>FlockCtrlDriver\<close>. UAV objects are shared between the registry, the reverse
  index and the callers, so they live in a store \<open>uavs\<close> and are referred to by
  their place in it. \<open>uav_registry\<close> is \<^verbatim>\<open>app.uav_registry\<close>;
  \<open>id_format\<close> stands for \<^verbatim>\<open>make_valid_uav_id(self.id_format.format(id))\<close>;
  \<open>sent_packets\<close> lists the calls of \<^verbatim>\<open>send_packet\<close>, each with the bytes of
  the command request packet and the destination.
\<close>

record 'f driver =
  pending_commands_by_uav :: future_map
  packet_handlers :: "packet_class \<rightharpoonup> handler"
  index_to_uav_id :: "int \<rightharpoonup> string"
  uavs_by_source_address :: "source \<rightharpoonup> nat"
  allow_multiple_commands_per_uav :: bool
  id_format :: "int \<Rightarrow> string"
  uavs :: "nat \<Rightarrow> 'f uav"
  next_uav :: nat
  uav_registry :: "string \<rightharpoonup> nat"
  log_warn :: "log_event list"
  sent_packets :: "(string \<times> source) list"

text \<open>
  \<^verbatim>\<open>FlockCtrlDriver.__init__\<close> with an empty registry; the store of UAV objects
  starts with blank objects at every place.
\<close>

definition new_driver :: "(int \<Rightarrow> string) \<Rightarrow> 'f driver" where
  "new_driver fmt =
     \<lparr>pending_commands_by_uav = future_map_empty,
      packet_handlers = configure_packet_handlers,
      index_to_uav_id = Map.empty,
      uavs_by_source_address = Map.empty,
      allow_multiple_commands_per_uav = True,
      id_format = fmt,
      uavs = (\<lambda>_. create_uav []),
      next_uav = 0,
      uav_registry = Map.empty,
      log_warn = [],
      sent_packets = []\<rparr>"

text \<open>\<^verbatim>\<open>_check_or_record_uav_address\<close>: the index is written only when the UAV accepted.\<close>

definition check_or_record_uav_address ::
  "'f driver \<Rightarrow> nat \<Rightarrow> medium \<Rightarrow> address \<Rightarrow> 'f driver \<times> error option" where
  "check_or_record_uav_address d r medium address =
     (case check_or_record_address (uavs d r) medium address of
        (u', Some e) \<Rightarrow> (d\<lparr>uavs := (uavs d)(r := u')\<rparr>, Some e)
      | (u', None) \<Rightarrow>
          (d\<lparr>uavs := (uavs d)(r := u'),
             uavs_by_source_address := (uavs_by_source_address d)((medium, address) \<mapsto> r)\<rparr>,
           None))"

text \<open>
  \<^verbatim>\<open>_get_or_create_uav\<close>: the formatted id comes from the cache when it is there,
  and is computed and cached otherwise; the UAV is then looked up in the registry and
  created there when missing.
\<close>

definition lookup_formatted_id :: "'f driver \<Rightarrow> int \<Rightarrow> 'f driver \<times> string" where
  "lookup_formatted_id d i =
     (case index_to_uav_id d i of
        Some formatted_id \<Rightarrow> (d, formatted_id)
      | None \<Rightarrow>
          (let formatted_id = id_format d i
           in (d\<lparr>index_to_uav_id := (index_to_uav_id d)(i \<mapsto> formatted_id)\<rparr>, formatted_id)))"

definition get_or_create_uav :: "'f driver \<Rightarrow> int \<Rightarrow> 'f driver \<times> nat" where
  "get_or_create_uav d i =
     (let (d1, formatted_id) = lookup_formatted_id d i
      in case uav_registry d1 formatted_id of
           None \<Rightarrow>
             (let r = next_uav d1
              in (d1\<lparr>uavs := (uavs d1)(r := create_uav formatted_id),
                     next_uav := Suc r,
                     uav_registry := (uav_registry d1)(formatted_id \<mapsto> r)\<rparr>, r))
         | Some r \<Rightarrow> (d1, r))"

text \<open>
  \<^verbatim>\<open>_send_command_to_address\<close>: the command request packet is handed to
  \<^verbatim>\<open>send_packet\<close>.
\<close>

definition send_command_to_address :: "'f driver \<Rightarrow> string \<Rightarrow> source \<Rightarrow> 'f driver" where
  "send_command_to_address d command address =
     d\<lparr>sent_packets := sent_packets d @ [(command, address)]\<rparr>"

text \<open>
  \<^verbatim>\<open>_send_command_to_uav\<close> up to the point where it waits for the future: the
  address is resolved, the packet is sent, and the scope of \<^verbatim>\<open>FutureMap.new\<close> is
  entered. The result is the error raised, or the future the caller now waits for.
\<close>

definition send_command_to_uav :: "'f driver \<Rightarrow> string \<Rightarrow> nat \<Rightarrow> 'f driver \<times> (error + nat)" where
  "send_command_to_uav d command r =
     (case preferred_address (uavs d r) of
        Inl _ \<Rightarrow> (d, Inl (ValueError ''Address of UAV is not known yet''))
      | Inr address \<Rightarrow>
          (let d1 = send_command_to_address d command address;
               (fm, res) = future_map_new (pending_commands_by_uav d1) (uav_id (uavs d1 r))
                             (\<not> allow_multiple_commands_per_uav d1)
           in (d1\<lparr>pending_commands_by_uav := fm\<rparr>, res)))"

text \<open>
  The rest of \<^verbatim>\<open>_send_command_to_uav\<close>: the wait on the future and the exit from
  the scope. While the future is waiting the caller stays suspended (\<open>None\<close>). A
  fulfilled future gives its text; a cancelled one makes the wait raise
  \<^verbatim>\<open>FutureCancelled\<close>, which is caught and turned into a text. Either way the scope
  is left.
\<close>

definition wait_for_command :: "'f driver \<Rightarrow> nat \<Rightarrow> nat \<Rightarrow> ('f driver \<times> (error + string)) option" where
  "wait_for_command d r f =
     (let fm = pending_commands_by_uav d;
          d' = d\<lparr>pending_commands_by_uav := future_map_exit fm (uav_id (uavs d r)) f\<rparr>
      in case futures fm f of
           Waiting \<Rightarrow> None
         | Fulfilled text \<Rightarrow> Some (d', Inr text)
         | Cancelled \<Rightarrow> Some (d', Inr ''Execution cancelled''))"

text \<open>
  \<^verbatim>\<open>_on_chunked_packet_assembled\<close>. \<open>decode\<close> stands for
  \<^verbatim>\<open>body.decode("utf-8", errors="replace")\<close>, which never raises.
\<close>

definition on_chunked_packet_assembled ::
  "(string \<Rightarrow> string) \<Rightarrow> 'f driver \<Rightarrow> string \<Rightarrow> source \<Rightarrow> 'f driver" where
  "on_chunked_packet_assembled decode d body source =
     (case uavs_by_source_address d source of
        None \<Rightarrow> d\<lparr>log_warn := log_warn d @ [NoCorrespondingUAV source]\<rparr>
      | Some r \<Rightarrow>
          (let decoded_body = decode body;
               fm = pending_commands_by_uav d
           in case slots fm (uav_id (uavs d r)) of
                None \<Rightarrow> d\<lparr>log_warn := log_warn d @ [DroppedStaleResponse (uav_id (uavs d r))]\<rparr>
              | Some f \<Rightarrow> d\<lparr>pending_commands_by_uav := future_set_result fm f decoded_body\<rparr>))"

text \<open>
  \<^verbatim>\<open>handle_inbound_packet\<close>. The bodies of the handlers reach into parts of the
  server that are outside the driver, so running a handler is the parameter
  \<open>invoke\<close>; a handler changes the driver and may raise.
\<close>

definition handle_inbound_packet ::
  "(handler \<Rightarrow> 'a packet \<Rightarrow> source \<Rightarrow> 'f driver \<Rightarrow> 'f driver \<times> error option) \<Rightarrow>
   'f driver \<Rightarrow> 'a packet \<Rightarrow> source \<Rightarrow> 'f driver \<times> error option" where
  "handle_inbound_packet invoke d packet source =
     (let packet_class = fst packet
      in case packet_handlers d packet_class of
           None \<Rightarrow>
             (d\<lparr>log_warn := log_warn d @ [NoPacketHandler (class_name packet_class)]\<rparr>, None)
         | Some handler \<Rightarrow> invoke handler packet source d)"

section \<open>Sensor channels of one UAV\<close>

definition MAX_GEIGER_TUBE_COUNT :: nat where
  "MAX_GEIGER_TUBE_COUNT = 2"

definition MAX_CAMERA_FEATURE_COUNT :: nat where
  "MAX_CAMERA_FEATURE_COUNT = 32"

definition geiger_counter_raw_counts :: "channel list" where
  "geiger_counter_raw_counts = map RawCount [0..<MAX_GEIGER_TUBE_COUNT]"

definition geiger_counter_rates :: "channel list" where
  "geiger_counter_rates = map Rate [0..<MAX_GEIGER_TUBE_COUNT]"

definition camera_features :: "channel list" where
  "camera_features = map CameraFeature [0..<MAX_CAMERA_FEATURE_COUNT]"

text \<open>
  The dictionary \<^verbatim>\<open>pos_data\<close> built from a position, and
  \<^verbatim>\<open>dict(pos_data, value=v)\<close>.
\<close>

definition pos_data_of :: "'f position \<Rightarrow> 'f pydict" where
  "pos_data_of p =
     (let pos_data = [(''lat'', DFloat (lat p)), (''lon'', DFloat (lon p))];
          pos_data = (case amsl p of
                        None \<Rightarrow> pos_data
                      | Some h \<Rightarrow> AList.update ''amsl'' (DFloat h) pos_data);
          pos_data = (case agl p of
                        None \<Rightarrow> pos_data
                      | Some h \<Rightarrow> AList.update ''agl'' (DFloat h) pos_data)
      in pos_data)"

definition with_value :: "'f pydict \<Rightarrow> 'f dval \<Rightarrow> 'f pydict" where
  "with_value pos_data v = AList.update ''value'' v pos_data"

text \<open>
  \<^verbatim>\<open>FlockCtrlUAV.update_detected_features\<close>. The loop indexes
  \<^verbatim>\<open>self.camera_features[i]\<close>, which raises \<^verbatim>\<open>IndexError\<close> past the last
  channel, after the writes made so far.
\<close>

fun update_features_from :: "nat \<Rightarrow> int \<Rightarrow> 'f position list \<Rightarrow> 'f mutator \<Rightarrow> 'f mutator \<times> error option" where
  "update_features_from i itow [] mutator = (mutator, None)"
| "update_features_from i itow (position # rest) mutator =
     (if i < length camera_features
      then update_features_from (Suc i) itow rest
             (mutator @ [(camera_features ! i, with_value (pos_data_of position) (DInt itow))])
      else (mutator, Some IndexError))"

definition update_detected_features ::
  "'f uav \<Rightarrow> int \<Rightarrow> 'f position list \<Rightarrow> 'f mutator \<Rightarrow> 'f mutator \<times> error option" where
  "update_detected_features u itow features mutator =
     (case status_position u of
        None \<Rightarrow> (mutator, None)
      | Some _ \<Rightarrow> update_features_from 0 itow features mutator)"

text \<open>
  The float arithmetic of Python that \<^verbatim>\<open>update_geiger_counter\<close> uses, as
  operations on \<open>'f\<close>: \<open>int_truediv a b\<close> is \<^verbatim>\<open>a / b\<close> on two ints,
  \<open>float_rtruediv a x\<close> is \<^verbatim>\<open>a / x\<close> on an int and a float, and
  \<open>float_gt_zero x\<close> is \<^verbatim>\<open>x > 0\<close>. A division gives the float that Python
  computes, rounded as Python rounds it, or the exception that Python raises
  (\<^verbatim>\<open>OverflowError\<close> for an int or a quotient beyond the range of a float).
\<close>

record 'f float_ops =
  int_truediv :: "int \<Rightarrow> int \<Rightarrow> error + 'f"
  float_rtruediv :: "int \<Rightarrow> 'f \<Rightarrow> error + 'f"
  float_gt_zero :: "'f \<Rightarrow> bool"

text \<open>
  The list comprehension of \<^verbatim>\<open>update_geiger_counter\<close> over
  \<^verbatim>\<open>zip(raw_counts, last_raw_counts)\<close>: one entry per pair, \<^verbatim>\<open>None\<close> unless
  the count has grown; the first division that raises ends it.
\<close>

fun rate_values :: "'f float_ops \<Rightarrow> 'f \<Rightarrow> (int \<times> int) list \<Rightarrow> error + 'f option list" where
  "rate_values ops dt [] = Inr []"
| "rate_values ops dt ((v, last_value) # rest) =
     (if v > last_value
      then (case float_rtruediv ops (v - last_value) dt of
              Inl e \<Rightarrow> Inl e
            | Inr x \<Rightarrow>
                (case rate_values ops dt rest of
                   Inl e \<Rightarrow> Inl e
                 | Inr values \<Rightarrow> Inr (Some x # values)))
      else (case rate_values ops dt rest of
              Inl e \<Rightarrow> Inl e
            | Inr values \<Rightarrow> Inr (None # values)))"

text \<open>The loop over the rate channels, which skips the entries that are \<^verbatim>\<open>None\<close>.\<close>

fun update_rates :: "'f pydict \<Rightarrow> (channel \<times> 'f option) list \<Rightarrow> 'f mutator \<Rightarrow> 'f mutator" where
  "update_rates pos_data [] mutator = mutator"
| "update_rates pos_data ((device, v) # rest) mutator =
     (case v of
        None \<Rightarrow> update_rates pos_data rest mutator
      | Some x \<Rightarrow> update_rates pos_data rest (mutator @ [(device, with_value pos_data (DFloat x))]))"

text \<open>What one step of that loop writes: nothing for \<^verbatim>\<open>None\<close>, one update otherwise.\<close>

definition rate_write :: "'f pydict \<Rightarrow> channel \<times> 'f option \<Rightarrow> 'f mutator" where
  "rate_write pos_data =
     (\<lambda>(device, v). case v of
                       None \<Rightarrow> []
                     | Some x \<Rightarrow> [(device, with_value pos_data (DFloat x))])"

text \<open>The loop over the raw count channels.\<close>

fun update_raw_counts :: "'f pydict \<Rightarrow> (channel \<times> int) list \<Rightarrow> 'f mutator \<Rightarrow> 'f mutator" where
  "update_raw_counts pos_data [] mutator = mutator"
| "update_raw_counts pos_data ((device, v) # rest) mutator =
     update_raw_counts pos_data rest (mutator @ [(device, with_value pos_data (DInt v))])"

text \<open>
  \<^verbatim>\<open>FlockCtrlUAV.update_geiger_counter\<close>. The argument \<open>position\<close> is
  overwritten by the position of the last status before it is read. Raw counts of
  \<^verbatim>\<open>None\<close> make \<^verbatim>\<open>zip\<close> raise \<^verbatim>\<open>TypeError\<close> after the dose rate was
  written. A division that raises does so after the dose rate and the raw counts were
  written and before any rate is, and the retained sample is then not replaced.
\<close>

definition update_geiger_counter ::
  "'f float_ops \<Rightarrow> 'f uav \<Rightarrow> 'f position option \<Rightarrow> int \<Rightarrow> 'f option \<Rightarrow> int list option \<Rightarrow>
   'f mutator \<Rightarrow> ('f uav \<times> 'f mutator) \<times> error option" where
  "update_geiger_counter ops u position itow dose_rate raw_counts mutator =
     (case status_position u of
        None \<Rightarrow> ((u, mutator), None)
      | Some position \<Rightarrow>
          (let pos_data = pos_data_of position;
               mutator = mutator @
                 [(DoseRate,
                   with_value pos_data (case dose_rate of None \<Rightarrow> DNone | Some x \<Rightarrow> DFloat x))]
           in case raw_counts of
                None \<Rightarrow> ((u, mutator), Some TypeError)
              | Some counts \<Rightarrow>
                  (let mutator =
                         update_raw_counts pos_data (zip geiger_counter_raw_counts counts) mutator;
                       u' = u\<lparr>last_geiger_counter_packet := Some (itow, counts)\<rparr>
                   in case last_geiger_counter_packet u of
                        None \<Rightarrow> ((u', mutator), None)
                      | Some (last_itow, last_raw_counts) \<Rightarrow>
                          (case int_truediv ops (itow - last_itow) 1000 of
                             Inl e \<Rightarrow> ((u, mutator), Some e)
                           | Inr dt \<Rightarrow>
                               if float_gt_zero ops dt
                               then (case rate_values ops dt (zip counts last_raw_counts) of
                                       Inl e \<Rightarrow> ((u, mutator), Some e)
                                     | Inr values \<Rightarrow>
                                         ((u', update_rates pos_data
                                                 (zip geiger_counter_rates values) mutator),
                                          None))
                               else ((u', mutator), None)))))"

section \<open>Sessions of UAV resolution\<close>

text \<open>
  What can happen to the driver between two resolutions of a numeric id: another
  resolution, the removal of a UAV from the registry by the server, and a change of the
  driver's \<^verbatim>\<open>id_format\<close> attribute. \<open>resolutions\<close> lists, for a sequence of
  such events, each numeric id resolved with the id of the UAV it resolved to.
\<close>

datatype event = Resolve int | Purge string | SetFormat "int \<Rightarrow> string"

fun resolutions :: "'f driver \<Rightarrow> event list \<Rightarrow> (int \<times> string) list" where
  "resolutions d [] = []"
| "resolutions d (Resolve i # rest) =
     (let (d', r) = get_or_create_uav d i
      in (i, uav_id (uavs d' r)) # resolutions d' rest)"
| "resolutions d (Purge formatted_id # rest) =
     resolutions (d\<lparr>uav_registry := (uav_registry d)(formatted_id := None)\<rparr>) rest"
| "resolutions d (SetFormat fmt # rest) = resolutions (d\<lparr>id_format := fmt\<rparr>) rest"

text \<open>
  The registry files every UAV under its own id, and its UAVs are objects that exist.
\<close>

definition registry_ok :: "'f driver \<Rightarrow> bool" where
  "registry_ok d \<longleftrightarrow>
     (\<forall>k r. uav_registry d k = Some r \<longrightarrow> uav_id (uavs d r) = k \<and> r < next_uav d)"

text \<open>
  Every entry of the reverse index points to a UAV that holds the entry's address for
  the entry's medium.
\<close>

definition index_sound :: "'f driver \<Rightarrow> bool" where
  "index_sound d \<longleftrightarrow>
     (\<forall>m a r. uavs_by_source_address d (m, a) = Some r \<longrightarrow> addresses (uavs d r) m = Some a)"

section \<open>Example states\<close>

text \<open>
  A UAV with the id \<open>07\<close> that has reported from \<open>(wireless, addrA)\<close>, a
  driver holding it at place 0 of its store, and the same driver in strict mode after a
  first command has been sent to that UAV.
\<close>

definition demo_uav :: "real uav" where
  "demo_uav = (create_uav ''07'')\<lparr>addresses := [''wireless'' \<mapsto> ''addrA'']\<rparr>"

definition demo_driver :: "real driver" where
  "demo_driver =
     (new_driver (\<lambda>_. ''07''))
       \<lparr>uavs := (\<lambda>_. demo_uav),
        uavs_by_source_address := [(''wireless'', ''addrA'') \<mapsto> 0]\<rparr>"

definition strict_driver :: "real driver" where
  "strict_driver =
     fst (send_command_to_uav (demo_driver\<lparr>allow_multiple_commands_per_uav := False\<rparr>)
            ''motoron'' 0)"

definition preempted_driver :: "real driver" where
  "preempted_driver =
     fst (send_command_to_uav (fst (send_command_to_uav demo_driver ''motoron'' 0)) ''land'' 0)"

text \<open>
  A driver with a second UAV, \<open>08\<close>, that reports from \<open>(wireless, addrB)\<close>
  and has no pending command, while a command for \<open>07\<close> is pending.
\<close>

definition two_uav_driver :: "real driver" where
  "two_uav_driver =
     (fst (send_command_to_uav demo_driver ''motoron'' 0))
       \<lparr>uavs := (\<lambda>r. if r = 0 then demo_uav else create_uav ''08''),
        uavs_by_source_address :=
          [(''wireless'', ''addrA'') \<mapsto> 0, (''wireless'', ''addrB'') \<mapsto> 1]\<rparr>"

text \<open>
  Two UAVs, \<open>07\<close> at place 0 and \<open>08\<close> at place 1, that have both reported
  from \<open>(wireless, addrA)\<close>, first \<open>07\<close> and then \<open>08\<close>.
\<close>

definition shared_address_driver :: "real driver" where
  "shared_address_driver =
     fst (check_or_record_uav_address
            (fst (check_or_record_uav_address
                    ((new_driver (\<lambda>_. ''07''))
                       \<lparr>uavs := (\<lambda>r. if r = 0 then create_uav ''07'' else create_uav ''08'')\<rparr>)
                    0 ''wireless'' ''addrA''))
            1 ''wireless'' ''addrA'')"

text \<open>
  A UAV with a known position whose last Geiger sample was the raw count 100 at time
  1000.
\<close>

definition demo_position :: "real position" where
  "demo_position = \<lparr>lat = 47, lon = 19, amsl = None, agl = None\<rparr>"

definition geiger_uav :: "real uav" where
  "geiger_uav =
     demo_uav\<lparr>status_position := Some demo_position,
              last_geiger_counter_packet := Some (1000, [100])\<rparr>"

text \<open>
  Float operations on the reals that divide without rounding and refuse an int or a
  quotient of magnitude \<open>2 ^ 1024\<close> and beyond. Where the exact quotient is a
  double, as in \<open>1000 / 1000\<close> and \<open>50 / 1.0\<close>, they give what double
  arithmetic gives.
\<close>

definition exact_float_ops :: "real float_ops" where
  "exact_float_ops =
     \<lparr>int_truediv =
        (\<lambda>a b. if b = 0 then Inl ZeroDivisionError
               else if 2 ^ 1024 \<le> \<bar>real_of_int a / real_of_int b\<bar> then Inl OverflowError
               else Inr (real_of_int a / real_of_int b)),
      float_rtruediv =
        (\<lambda>a x. if 2 ^ 1024 \<le> \<bar>a\<bar> then Inl OverflowError
               else if x = 0 then Inl ZeroDivisionError
               else if 2 ^ 1024 \<le> \<bar>real_of_int a / x\<bar> then Inl OverflowError
               else Inr (real_of_int a / x)),
      float_gt_zero = (\<lambda>x. 0 < x)\<rparr>"

text \<open>A fresh driver after the numeric id 7 has been resolved once.\<close>

definition cached_driver :: "real driver" where
  "cached_driver = fst (get_or_create_uav (new_driver (\<lambda>_. ''07'')) 7)"

section \<open>Address recording on one UAV\<close>

lemma record_attempts_addresses:
  "addresses (record_attempts u attempts) m =
     (case addresses u m of Some b \<Rightarrow> Some b | None \<Rightarrow> map_of attempts m)"
proof (induction attempts arbitrary: u)
  case Nil
  then show ?case by (simp split: option.splits)
next
  case (Cons p attempts)
  obtain m' a' where p: "p = (m', a')" by (cases p)
  show ?case
    unfolding p
    by (simp add: Cons.IH check_or_record_address_def split: option.splits)
qed

text \<open>
  C3. Recording an address for a medium that has none stores it; recording the stored
  address again succeeds and leaves the UAV as it was; recording a different address
  raises \<open>AddressConflictError\<close> and leaves the UAV as it was. After any sequence
  of attempts the address held for a medium is the one held before the sequence or,
  when there was none, the first one attempted for that medium.
\<close>

theorem check_or_record_address_first_wins:
  "(addresses u m = None \<longrightarrow>
      check_or_record_address u m a = (u\<lparr>addresses := (addresses u)(m \<mapsto> a)\<rparr>, None))
   \<and> (addresses u m = Some a \<longrightarrow> check_or_record_address u m a = (u, None))
   \<and> (addresses u m = Some b \<and> b \<noteq> a \<longrightarrow>
        check_or_record_address u m a = (u, Some (AddressConflictError (uav_id u) m a)))
   \<and> addresses (record_attempts u attempts) m =
        (case addresses u m of Some b \<Rightarrow> Some b | None \<Rightarrow> map_of attempts m)"
  by (simp add: check_or_record_address_def record_attempts_addresses)

theorem check_or_record_address_first_wins_witness:
  "check_or_record_address (create_uav ''07'' :: real uav) ''wireless'' ''addrA'' =
     ((create_uav ''07'' :: real uav)\<lparr>addresses := [''wireless'' \<mapsto> ''addrA'']\<rparr>, None)
   \<and> check_or_record_address ((create_uav ''07'' :: real uav)\<lparr>addresses := [''wireless'' \<mapsto> ''addrA'']\<rparr>)
        ''wireless'' ''addrA'' =
       ((create_uav ''07'' :: real uav)\<lparr>addresses := [''wireless'' \<mapsto> ''addrA'']\<rparr>, None)
   \<and> check_or_record_address ((create_uav ''07'' :: real uav)\<lparr>addresses := [''wireless'' \<mapsto> ''addrA'']\<rparr>)
        ''wireless'' ''addrB'' =
       ((create_uav ''07'' :: real uav)\<lparr>addresses := [''wireless'' \<mapsto> ''addrA'']\<rparr>,
        Some (AddressConflictError ''07'' ''wireless'' ''addrB''))
   \<and> addresses (record_attempts (create_uav ''07'' :: real uav)
        [(''wireless'', ''addrA''), (''wireless'', ''addrB''), (''wireless'', ''addrA'')])
        ''wireless'' = Some ''addrA''"
  using check_or_record_address_first_wins
          [of "(create_uav ''07'' :: real uav)" "''wireless''" "''addrA''" "''addrA''"
              "[(''wireless'', ''addrA''), (''wireless'', ''addrB''), (''wireless'', ''addrA'')]"]
        check_or_record_address_first_wins
          [of "(create_uav ''07'' :: real uav)\<lparr>addresses := [''wireless'' \<mapsto> ''addrA'']\<rparr>"
              "''wireless''" "''addrA''" "''addrA''" "[]"]
        check_or_record_address_first_wins
          [of "(create_uav ''07'' :: real uav)\<lparr>addresses := [''wireless'' \<mapsto> ''addrA'']\<rparr>"
              "''wireless''" "''addrB''" "''addrA''" "[]"]
  by (simp add: create_uav_def)

section \<open>Sending commands\<close>

text \<open>
  C8. A command for a UAV that has no address on any supported medium fails with a
  \<open>ValueError\<close> and leaves the driver as it was: no packet has been handed to
  the transport and no pending command has been created.
\<close>

theorem send_command_without_address:
  "(\<forall>medium \<in> set supported_media. addresses (uavs d r) medium = None) \<Longrightarrow>
     send_command_to_uav d command r = (d, Inl (ValueError ''Address of UAV is not known yet''))"
  by (simp add: send_command_to_uav_def preferred_address_def supported_media_def)

theorem send_command_without_address_witness:
  "supported_media = [''wireless'']
   \<and> addresses (uavs (new_driver (\<lambda>_. ''07'') :: real driver) 0) ''wireless'' = None
   \<and> send_command_to_uav (new_driver (\<lambda>_. ''07'') :: real driver) ''land'' 0 =
       (new_driver (\<lambda>_. ''07''), Inl (ValueError ''Address of UAV is not known yet''))"
proof -
  have h: "\<forall>medium \<in> set supported_media.
       addresses (uavs (new_driver (\<lambda>_. ''07'') :: real driver) 0) medium = None"
    by (simp add: new_driver_def create_uav_def)
  show ?thesis
    using send_command_without_address [OF h]
    by (simp add: supported_media_def new_driver_def create_uav_def)
qed

lemmas command_eval =
  strict_driver_def preempted_driver_def demo_driver_def demo_uav_def two_uav_driver_def
  new_driver_def send_command_to_uav_def preferred_address_def supported_media_def
  send_command_to_address_def future_map_new_def future_map_create_def future_map_empty_def
  future_cancel_def future_set_result_def future_map_exit_def create_uav_def Let_def

lemma send_command_strict_pending:
  assumes "\<not> allow_multiple_commands_per_uav d"
    and "preferred_address (uavs d r) = Inr address"
    and "slots (pending_commands_by_uav d) (uav_id (uavs d r)) = Some f"
  shows "send_command_to_uav d command r =
           (d\<lparr>sent_packets := sent_packets d @ [(command, address)]\<rparr>,
            Inl CommandAlreadyInProgress)"
  using assms
  by (simp add: send_command_to_uav_def send_command_to_address_def future_map_new_def)

lemma strict_driver_facts:
  "\<not> allow_multiple_commands_per_uav strict_driver"
  "preferred_address (uavs strict_driver 0) = Inr (''wireless'', ''addrA'')"
  "slots (pending_commands_by_uav strict_driver) (uav_id (uavs strict_driver 0)) = Some 0"
  "sent_packets strict_driver = [(''motoron'', (''wireless'', ''addrA''))]"
  "futures (pending_commands_by_uav strict_driver) 0 = Waiting"
  by (simp_all add: command_eval)

text \<open>
  C1. In strict mode, with the command \<open>motoron\<close> pending for UAV \<open>07\<close>, a
  second command \<open>land\<close> fails with \<open>CommandAlreadyInProgress\<close>, and the
  first command stays pending and is fulfilled by a later response. But the packet of
  the second command has been handed to the transport before the failure: the driver
  sends first and asks for the slot afterwards.
\<close>

theorem strict_second_command_is_transmitted:
  "send_command_to_uav strict_driver ''land'' 0 =
     (strict_driver\<lparr>sent_packets :=
        [(''motoron'', (''wireless'', ''addrA'')), (''land'', (''wireless'', ''addrA''))]\<rparr>,
      Inl CommandAlreadyInProgress)
   \<and> slots (pending_commands_by_uav (fst (send_command_to_uav strict_driver ''land'' 0))) ''07'' =
       Some 0
   \<and> map_option snd
        (wait_for_command
           (on_chunked_packet_assembled id (fst (send_command_to_uav strict_driver ''land'' 0))
              ''OK'' (''wireless'', ''addrA'')) 0 0) = Some (Inr ''OK'')"
proof -
  have first: "send_command_to_uav strict_driver ''land'' 0 =
     (strict_driver\<lparr>sent_packets :=
        [(''motoron'', (''wireless'', ''addrA'')), (''land'', (''wireless'', ''addrA''))]\<rparr>,
      Inl CommandAlreadyInProgress)"
    using send_command_strict_pending [OF strict_driver_facts(1-3), of "''land''"]
    by (simp add: strict_driver_facts(4))
  have slot: "slots (pending_commands_by_uav strict_driver) ''07'' = Some 0"
    and src: "uavs_by_source_address strict_driver (''wireless'', ''addrA'') = Some 0"
    and uid: "uav_id (uavs strict_driver 0) = ''07''"
    by (simp_all add: command_eval)
  show ?thesis
    unfolding first
    by (simp add: slot src uid strict_driver_facts(5) on_chunked_packet_assembled_def
          wait_for_command_def future_set_result_def Let_def)
qed

text \<open>
  C9. When the future of a pending command has been cancelled, the sender that waits
  for it gets the text \<open>Execution cancelled\<close> as the result of the command, not
  an error, and leaves the scope of its slot.
\<close>

theorem cancelled_command_gives_sentinel:
  "futures (pending_commands_by_uav d) f = Cancelled \<Longrightarrow>
     wait_for_command d r f =
       Some (d\<lparr>pending_commands_by_uav :=
                future_map_exit (pending_commands_by_uav d) (uav_id (uavs d r)) f\<rparr>,
             Inr ''Execution cancelled'')"
  by (simp add: wait_for_command_def)

lemma preempted_driver_facts:
  "futures (pending_commands_by_uav preempted_driver) 0 = Cancelled"
  "slots (pending_commands_by_uav preempted_driver) ''07'' = Some 1"
  "uav_id (uavs preempted_driver 0) = ''07''"
  by (simp_all add: command_eval)

theorem cancelled_command_gives_sentinel_witness:
  "futures (pending_commands_by_uav preempted_driver) 0 = Cancelled
   \<and> wait_for_command preempted_driver 0 0 =
       Some (preempted_driver, Inr ''Execution cancelled'')"
  using cancelled_command_gives_sentinel [OF preempted_driver_facts(1), of 0]
  by (simp add: preempted_driver_facts future_map_exit_def)

section \<open>Responses without a pending command\<close>

text \<open>
  C7. A reassembled response from a source that no UAV is known for, or from a UAV that
  has no pending command, only adds a warning to the log; the driver is otherwise
  unchanged and nothing is raised. In every case the handler removes no pending command,
  and it leaves alone every future other than the one pending for the UAV of the source.
\<close>

theorem stale_response_is_dropped:
  "(uavs_by_source_address d source = None \<longrightarrow>
      on_chunked_packet_assembled decode d body source =
        d\<lparr>log_warn := log_warn d @ [NoCorrespondingUAV source]\<rparr>)
   \<and> (uavs_by_source_address d source = Some r
        \<and> slots (pending_commands_by_uav d) (uav_id (uavs d r)) = None \<longrightarrow>
        on_chunked_packet_assembled decode d body source =
          d\<lparr>log_warn := log_warn d @ [DroppedStaleResponse (uav_id (uavs d r))]\<rparr>)
   \<and> slots (pending_commands_by_uav (on_chunked_packet_assembled decode d body source)) =
        slots (pending_commands_by_uav d)
   \<and> (uavs_by_source_address d source = Some r
        \<and> slots (pending_commands_by_uav d) (uav_id (uavs d r)) \<noteq> Some f \<longrightarrow>
        futures (pending_commands_by_uav (on_chunked_packet_assembled decode d body source)) f =
          futures (pending_commands_by_uav d) f)"
  by (auto simp add: on_chunked_packet_assembled_def future_set_result_def Let_def
           split: option.splits)

theorem stale_response_is_dropped_witness:
  "uavs_by_source_address two_uav_driver (''wireless'', ''addrC'') = None
   \<and> on_chunked_packet_assembled id two_uav_driver ''OK'' (''wireless'', ''addrC'') =
       two_uav_driver\<lparr>log_warn := [NoCorrespondingUAV (''wireless'', ''addrC'')]\<rparr>
   \<and> uavs_by_source_address two_uav_driver (''wireless'', ''addrB'') = Some 1
   \<and> slots (pending_commands_by_uav two_uav_driver) (uav_id (uavs two_uav_driver 1)) = None
   \<and> on_chunked_packet_assembled id two_uav_driver ''OK'' (''wireless'', ''addrB'') =
       two_uav_driver\<lparr>log_warn := [DroppedStaleResponse ''08'']\<rparr>
   \<and> slots (pending_commands_by_uav two_uav_driver) ''07'' = Some 0
   \<and> futures (pending_commands_by_uav
        (on_chunked_packet_assembled id two_uav_driver ''OK'' (''wireless'', ''addrB''))) 0 =
       Waiting"
  using stale_response_is_dropped
          [of two_uav_driver "(''wireless'', ''addrC'')" id "''OK''" 0 0]
        stale_response_is_dropped
          [of two_uav_driver "(''wireless'', ''addrB'')" id "''OK''" 1 0]
  by (simp add: command_eval)

section \<open>Packet dispatch\<close>

text \<open>
  C6. A packet whose class has no entry in the dispatch table only adds a warning to
  the log: nothing is raised and no handler runs, whatever the handlers would do. A
  packet whose class has an entry is handled by running the handler of that entry, and
  nothing else.
\<close>

theorem dispatch_by_packet_class:
  "(packet_handlers d (fst packet) = None \<longrightarrow>
      handle_inbound_packet invoke d packet source =
        (d\<lparr>log_warn := log_warn d @ [NoPacketHandler (class_name (fst packet))]\<rparr>, None))
   \<and> (packet_handlers d (fst packet) = Some h \<longrightarrow>
        handle_inbound_packet invoke d packet source = invoke h packet source d)"
  by (simp add: handle_inbound_packet_def)

theorem dispatch_by_packet_class_witness:
  "packet_handlers (new_driver (\<lambda>_. ''07'') :: real driver) (OtherPacketClass ''FlockCtrlClockSyncPacket'') = None
   \<and> handle_inbound_packet (\<lambda>h p s d. (d, Some TypeError)) (new_driver (\<lambda>_. ''07'') :: real driver)
        (OtherPacketClass ''FlockCtrlClockSyncPacket'', ()) (''wireless'', ''addrA'') =
       ((new_driver (\<lambda>_. ''07'') :: real driver)\<lparr>log_warn := [NoPacketHandler ''FlockCtrlClockSyncPacket'']\<rparr>,
        None)
   \<and> packet_handlers (new_driver (\<lambda>_. ''07'') :: real driver) FlockCtrlMissionInfoPacket = Some Nop
   \<and> handle_inbound_packet (\<lambda>h p s d. (d, if h = Nop then None else Some TypeError))
        (new_driver (\<lambda>_. ''07'') :: real driver) (FlockCtrlMissionInfoPacket, ()) (''wireless'', ''addrA'') =
       (new_driver (\<lambda>_. ''07''), None)"
  using dispatch_by_packet_class
          [of "(new_driver (\<lambda>_. ''07'') :: real driver)" "(OtherPacketClass ''FlockCtrlClockSyncPacket'', ())"
              "\<lambda>h p s d. (d, Some TypeError)" "(''wireless'', ''addrA'')" Nop]
        dispatch_by_packet_class
          [of "(new_driver (\<lambda>_. ''07'') :: real driver)" "(FlockCtrlMissionInfoPacket, ())"
              "\<lambda>h p s d. (d, if h = Nop then None else Some TypeError)"
              "(''wireless'', ''addrA'')" Nop]
  by (simp add: new_driver_def)

section \<open>Geiger counter and camera updates\<close>

lemma update_raw_counts_eq:
  "update_raw_counts pd xs mut = mut @ map (\<lambda>(dev, v). (dev, with_value pd (DInt v))) xs"
  by (induction xs arbitrary: mut) auto

lemma update_rates_eq:
  "update_rates pd xs mut = mut @ concat (map (rate_write pd) xs)"
  by (induction xs arbitrary: mut) (auto simp: rate_write_def split: option.splits)








lemmas sensor_eval = geiger_uav_def demo_uav_def demo_position_def create_uav_def
  pos_data_of_def with_value_def update_geiger_counter_def update_detected_features_def
  geiger_counter_raw_counts_def geiger_counter_rates_def MAX_GEIGER_TUBE_COUNT_def
  exact_float_ops_def Let_def



text \<open>
  C10. On a UAV whose status position is \<^verbatim>\<open>None\<close>, neither
  \<^verbatim>\<open>update_geiger_counter\<close> nor \<^verbatim>\<open>update_detected_features\<close> calls the
  mutator, and the UAV, with its retained Geiger sample, stays as it was. The position
  argument of \<^verbatim>\<open>update_geiger_counter\<close> has no effect, and when the status position
  is known, every update it makes carries the dictionary of that position.
\<close>

theorem no_position_no_writes:
  "(status_position u = None \<longrightarrow>
      update_geiger_counter ops u position itow dose_rate raw_counts mutator = ((u, mutator), None)
      \<and> update_detected_features u itow features mutator = (mutator, None))
   \<and> update_geiger_counter ops u position itow dose_rate raw_counts mutator =
       update_geiger_counter ops u position' itow dose_rate raw_counts mutator
   \<and> (status_position u = Some p \<longrightarrow>
        take (length mutator)
          (snd (fst (update_geiger_counter ops u position itow dose_rate raw_counts mutator))) =
          mutator
        \<and> (\<forall>w \<in> set (drop (length mutator)
                  (snd (fst (update_geiger_counter ops u position itow dose_rate raw_counts
                               mutator)))).
              \<exists>v. snd w = with_value (pos_data_of p) v))"
  by (auto simp add: update_geiger_counter_def update_detected_features_def Let_def
        update_raw_counts_eq update_rates_eq rate_write_def
        split: option.splits if_splits sum.splits)

theorem no_position_no_writes_witness:
  "status_position (create_uav ''07'' :: real uav) = None
   \<and> update_geiger_counter exact_float_ops (create_uav ''07'') (Some demo_position) 2000
        (Some 0.5) (Some [150]) [] =
       ((create_uav ''07'', []), None)
   \<and> update_detected_features (create_uav ''07'' :: real uav) 2000 [demo_position] [] = ([], None)
   \<and> status_position geiger_uav = Some demo_position
   \<and> snd (fst (update_geiger_counter exact_float_ops geiger_uav
                  (Some \<lparr>lat = 1, lon = 2, amsl = None, agl = None\<rparr>)
                  2000 None (Some [150]) [])) =
     [(DoseRate, [(''lat'', DFloat 47), (''lon'', DFloat 19), (''value'', DNone)]),
      (RawCount 0, [(''lat'', DFloat 47), (''lon'', DFloat 19), (''value'', DInt 150)]),
      (Rate 0, [(''lat'', DFloat 47), (''lon'', DFloat 19), (''value'', DFloat 50)])]"
  using no_position_no_writes [where u = "create_uav ''07'' :: real uav" and ops = exact_float_ops
          and position = "Some demo_position" and itow = 2000 and dose_rate = "Some 0.5"
          and raw_counts = "Some [150]" and mutator = "[]" and features = "[demo_position]"
          and position' = None and p = demo_position]
        no_position_no_writes [where u = geiger_uav and ops = exact_float_ops
          and position = "Some \<lparr>lat = 1, lon = 2, amsl = None, agl = None\<rparr>" and itow = 2000
          and dose_rate = None and raw_counts = "Some [150]" and mutator = "[]"
          and features = "[]" and position' = None and p = demo_position]
  by (simp add: sensor_eval upt_rec)

section \<open>The reverse index of addresses\<close>

text \<open>
  C4 (amended). A recording attempt that raises leaves the driver, and so the reverse
  index and every address map, as it was. A recording attempt that succeeds, whether it
  stored a new address or met the stored one again, sets the index entry of the medium
  and address to the recording UAV, which then holds that address for the medium. Every
  recording attempt keeps the index sound: each entry points to a UAV holding the
  entry's address.
\<close>

theorem address_index_after_recording:
  "(snd (check_or_record_uav_address d r m a) \<noteq> None \<longrightarrow>
      fst (check_or_record_uav_address d r m a) = d)
   \<and> (snd (check_or_record_uav_address d r m a) = None \<longrightarrow>
        uavs_by_source_address (fst (check_or_record_uav_address d r m a)) =
          (uavs_by_source_address d)((m, a) \<mapsto> r)
        \<and> addresses (uavs (fst (check_or_record_uav_address d r m a)) r) m = Some a)
   \<and> (index_sound d \<longrightarrow> index_sound (fst (check_or_record_uav_address d r m a)))"
  by (auto simp add: check_or_record_uav_address_def check_or_record_address_def index_sound_def
           split: option.splits if_splits)

lemmas address_eval = shared_address_driver_def check_or_record_uav_address_def
  check_or_record_address_def new_driver_def create_uav_def

text \<open>
  Counterexample to C4 as stated. After \<open>07\<close> and \<open>08\<close> have both
  reported from the same source, \<open>07\<close>
  reports from it once more. The attempt succeeds and no address map changes, yet the
  index entry of the source moves from \<open>08\<close> to \<open>07\<close>; before that,
  \<open>07\<close> held the address while the index pointed to \<open>08\<close>.
\<close>

theorem repeated_recording_moves_index:
  "snd (check_or_record_uav_address shared_address_driver 0 ''wireless'' ''addrA'') = None
   \<and> uavs (fst (check_or_record_uav_address shared_address_driver 0 ''wireless'' ''addrA'')) =
       uavs shared_address_driver
   \<and> uavs_by_source_address shared_address_driver (''wireless'', ''addrA'') = Some 1
   \<and> uavs_by_source_address
        (fst (check_or_record_uav_address shared_address_driver 0 ''wireless'' ''addrA''))
        (''wireless'', ''addrA'') = Some 0
   \<and> addresses (uavs shared_address_driver 0) ''wireless'' = Some ''addrA''"
  by (simp add: address_eval fun_eq_iff)

theorem address_index_after_recording_witness:
  "snd (check_or_record_uav_address shared_address_driver 0 ''wireless'' ''addrB'') \<noteq> None
   \<and> fst (check_or_record_uav_address shared_address_driver 0 ''wireless'' ''addrB'') =
       shared_address_driver
   \<and> snd (check_or_record_uav_address shared_address_driver 0 ''wired'' ''addrB'') = None
   \<and> uavs_by_source_address
        (fst (check_or_record_uav_address shared_address_driver 0 ''wired'' ''addrB'')) =
       [(''wireless'', ''addrA'') \<mapsto> 1, (''wired'', ''addrB'') \<mapsto> 0]
   \<and> index_sound shared_address_driver
   \<and> index_sound (fst (check_or_record_uav_address shared_address_driver 0 ''wired'' ''addrB''))"
proof -
  have e: "snd (check_or_record_uav_address shared_address_driver 0 ''wireless'' ''addrB'') \<noteq> None"
    by (simp add: address_eval)
  have n: "snd (check_or_record_uav_address shared_address_driver 0 ''wired'' ''addrB'') = None"
    by (simp add: address_eval)
  have s: "index_sound shared_address_driver"
    by (simp add: address_eval index_sound_def)
  have i: "uavs_by_source_address shared_address_driver = [(''wireless'', ''addrA'') \<mapsto> 1]"
    by (simp add: address_eval)
  show ?thesis
    using e n s
      address_index_after_recording [of shared_address_driver 0 "''wireless''" "''addrB''"]
      address_index_after_recording [of shared_address_driver 0 "''wired''" "''addrB''"]
    by (simp add: i)
qed

section \<open>Resolution of numeric ids\<close>

lemma lookup_formatted_id_cached:
  "index_to_uav_id d i = Some c \<Longrightarrow> lookup_formatted_id d i = (d, c)"
  by (simp add: lookup_formatted_id_def)

lemma registry_ok_fresh: "registry_ok d \<Longrightarrow> uav_registry d k \<noteq> Some (next_uav d)"
  by (auto simp add: registry_ok_def)

lemma get_or_create_uav_props:
  assumes "registry_ok d" and "get_or_create_uav d i = (d', r)"
  shows "registry_ok d'"
    and "index_to_uav_id d' i = Some (uav_id (uavs d' r))"
    and "index_to_uav_id d j = Some c \<Longrightarrow> index_to_uav_id d' j = Some c"
  using assms registry_ok_fresh [OF assms(1)]
  by (auto simp add: get_or_create_uav_def lookup_formatted_id_def registry_ok_def Let_def
        create_uav_def less_Suc_eq
        split: option.splits if_splits)

lemma resolutions_cached:
  "registry_ok d \<Longrightarrow> index_to_uav_id d i = Some c \<Longrightarrow> (i, s) \<in> set (resolutions d events)
     \<Longrightarrow> s = c"
proof (induction events arbitrary: d)
  case Nil
  then show ?case by simp
next
  case (Cons e events)
  show ?case
  proof (cases e)
    case (Resolve j)
    obtain d' r where g: "get_or_create_uav d j = (d', r)" by (cases "get_or_create_uav d j")
    note p = get_or_create_uav_props [OF Cons.prems(1) g]
    from Cons.prems(3) Resolve g
    consider "i = j" "s = uav_id (uavs d' r)" | "(i, s) \<in> set (resolutions d' events)"
      by auto
    then show ?thesis
    proof cases
      case 1
      with p(2) p(3) [OF Cons.prems(2)] show ?thesis by simp
    next
      case 2
      from Cons.IH [OF p(1) p(3) [OF Cons.prems(2)] 2] show ?thesis .
    qed
  next
    case (Purge k)
    have "registry_ok (d\<lparr>uav_registry := (uav_registry d)(k := None)\<rparr>)"
      using Cons.prems(1) by (simp add: registry_ok_def)
    from Cons.IH [OF this] Cons.prems Purge show ?thesis by simp
  next
    case (SetFormat fmt)
    have "registry_ok (d\<lparr>id_format := fmt\<rparr>)"
      using Cons.prems(1) by (simp add: registry_ok_def)
    from Cons.IH [OF this] Cons.prems SetFormat show ?thesis by simp
  qed
qed

lemma resolutions_agree:
  "registry_ok d \<Longrightarrow> (i, s) \<in> set (resolutions d events) \<Longrightarrow>
     (i, s') \<in> set (resolutions d events) \<Longrightarrow> s' = s"
proof (induction events arbitrary: d)
  case Nil
  then show ?case by simp
next
  case (Cons e events)
  show ?case
  proof (cases e)
    case (Resolve j)
    obtain d' r where g: "get_or_create_uav d j = (d', r)" by (cases "get_or_create_uav d j")
    note p = get_or_create_uav_props(1,2) [OF Cons.prems(1) g]
    have later: "t = uav_id (uavs d' r)" if "i = j" "(i, t) \<in> set (resolutions d' events)" for t
      using resolutions_cached [OF p(1) _ that(2)] p(2) that(1) by simp
    from Cons.prems(2,3) Resolve g
    have "(i = j \<and> s = uav_id (uavs d' r)) \<or> (i, s) \<in> set (resolutions d' events)"
      and "(i = j \<and> s' = uav_id (uavs d' r)) \<or> (i, s') \<in> set (resolutions d' events)"
      by auto
    then show ?thesis
      using later Cons.IH [OF p(1)] by (cases "i = j") auto
  next
    case (Purge k)
    have "registry_ok (d\<lparr>uav_registry := (uav_registry d)(k := None)\<rparr>)"
      using Cons.prems(1) by (simp add: registry_ok_def)
    from Cons.IH [OF this] Cons.prems Purge show ?thesis by simp
  next
    case (SetFormat fmt)
    have "registry_ok (d\<lparr>id_format := fmt\<rparr>)"
      using Cons.prems(1) by (simp add: registry_ok_def)
    from Cons.IH [OF this] Cons.prems SetFormat show ?thesis by simp
  qed
qed

text \<open>
  C5. In any session of resolutions, removals from the registry and changes of the id
  format, every resolution of a numeric id yields a UAV with the same formatted id; when
  the id is in the cache at the start, it is the cached one.
\<close>

theorem formatted_id_is_stable:
  assumes "registry_ok d" and "(i, s) \<in> set (resolutions d events)"
  shows "(\<forall>s'. (i, s') \<in> set (resolutions d events) \<longrightarrow> s' = s)
         \<and> (\<forall>c. index_to_uav_id d i = Some c \<longrightarrow> s = c)"
  using assms resolutions_agree [OF assms] resolutions_cached [OF assms(1) _ assms(2)]
  by blast

theorem formatted_id_is_stable_witness:
  "registry_ok cached_driver
   \<and> index_to_uav_id cached_driver 7 = Some ''07''
   \<and> resolutions cached_driver [Purge ''07'', SetFormat (\<lambda>_. ''V-07''), Resolve 7] =
       [(7, ''07'')]"
proof -
  have ok: "registry_ok cached_driver"
    by (simp add: cached_driver_def registry_ok_def new_driver_def get_or_create_uav_def
          lookup_formatted_id_def create_uav_def Let_def)
  have res: "resolutions cached_driver [Purge ''07'', SetFormat (\<lambda>_. ''V-07''), Resolve 7] =
       [(7, ''07'')]"
    by (simp add: cached_driver_def new_driver_def get_or_create_uav_def
          lookup_formatted_id_def create_uav_def Let_def)
  have mem: "(7, ''07'') \<in> set (resolutions cached_driver
       [Purge ''07'', SetFormat (\<lambda>_. ''V-07''), Resolve 7])"
    unfolding res by simp
  have cache: "index_to_uav_id cached_driver 7 = Some ''07''"
    by (simp add: cached_driver_def new_driver_def get_or_create_uav_def
          lookup_formatted_id_def create_uav_def Let_def)
  show ?thesis
    using formatted_id_is_stable [OF ok mem] ok res cache by blast
qed

end
